theory Spec2Isabelle
  imports Complex_Main
begin

section \<open>The plank of Balancing Act (js/common/model/Plank.js)\<close>

text \<open>
  A shallow embedding of \<^verbatim>\<open>Plank.js\<close>. JavaScript numbers are modelled as
  \<^typ>\<open>real\<close> (finite values, no rounding, no NaN), objects that are shared by
  reference (the masses) live in a store indexed by \<^typ>\<open>nat\<close>, and a method is a
  function from the plank to an outcome and the plank as the call leaves it: what a
  method assigned before it threw stays assigned.
\<close>

subsection \<open>Values, errors, outcomes\<close>

datatype Vector2 = Vector2 (vx: real) (vy: real)

datatype jserror = TypeError | Error string

datatype 'a outcome = Ret 'a | Throw jserror

definition plusV :: "Vector2 \<Rightarrow> Vector2 \<Rightarrow> Vector2" where
  "plusV a b = Vector2 (vx a + vx b) (vy a + vy b)"

definition rotated :: "Vector2 \<Rightarrow> real \<Rightarrow> Vector2" where
  "rotated v a = Vector2 (vx v * cos a - vy v * sin a) (vx v * sin a + vy v * cos a)"

definition distance :: "Vector2 \<Rightarrow> Vector2 \<Rightarrow> real" where
  "distance a b = sqrt ((vx a - vx b)\<^sup>2 + (vy a - vy b)\<^sup>2)"

text \<open>\<^verbatim>\<open>Matrix3.translation( x, y )\<close> and \<^verbatim>\<open>Matrix3.rotationAround( angle, x, y )\<close>,
  applied to a point.\<close>

definition translation :: "Vector2 \<Rightarrow> Vector2 \<Rightarrow> Vector2" where
  "translation t p = plusV p t"

definition rotationAround :: "real \<Rightarrow> Vector2 \<Rightarrow> Vector2 \<Rightarrow> Vector2" where
  "rotationAround a c p = plusV c (rotated (Vector2 (vx p - vx c) (vy p - vy c)) a)"

text \<open>A \<^verbatim>\<open>Shape\<close> made of line segments is its list of vertices; its bounds are the
  extreme coordinates of the vertices. The plank's outline always has seven of them;
  the value for the empty list is never read.\<close>

fun minimum :: "real list \<Rightarrow> real" where
  "minimum [] = 0"
| "minimum [a] = a"
| "minimum (a # b # xs) = min a (minimum (b # xs))"

fun maximum :: "real list \<Rightarrow> real" where
  "maximum [] = 0"
| "maximum [a] = a"
| "maximum (a # b # xs) = max a (maximum (b # xs))"

definition bounds_minX :: "Vector2 list \<Rightarrow> real" where
  "bounds_minX s = minimum (map vx s)"

definition bounds_maxX :: "Vector2 list \<Rightarrow> real" where
  "bounds_maxX s = maximum (map vx s)"

definition bounds_maxY :: "Vector2 list \<Rightarrow> real" where
  "bounds_maxY s = maximum (map vy s)"

subsection \<open>Constants\<close>

definition PLANK_LENGTH :: real where
  "PLANK_LENGTH = 4.5"

definition PLANK_THICKNESS :: real where
  "PLANK_THICKNESS = 0.05"

definition PLANK_MASS :: real where
  "PLANK_MASS = 75"

definition INTER_SNAP_TO_MARKER_DISTANCE :: real where
  "INTER_SNAP_TO_MARKER_DISTANCE = 0.25"

definition NUM_SNAP_TO_LOCATIONS :: nat where
  "NUM_SNAP_TO_LOCATIONS = nat \<lfloor>PLANK_LENGTH / INTER_SNAP_TO_MARKER_DISTANCE - 1\<rfloor>"

definition MOMENT_OF_INERTIA :: real where
  "MOMENT_OF_INERTIA =
     PLANK_MASS * ((PLANK_LENGTH * PLANK_LENGTH) + (PLANK_THICKNESS * PLANK_THICKNESS)) / 12"

subsection \<open>Masses and the plank\<close>

text \<open>
  Modelled from the spec: \<^verbatim>\<open>Mass.js\<close> and \<^verbatim>\<open>MassForceVector.js\<close> are not among the
  sources. A mass has a position, a rotation angle, a mass value and an attached flag
  (spec, section 3); \<^verbatim>\<open>height\<close> is what \<^verbatim>\<open>ImageMass.getMiddlePoint\<close> adds half of to
  the position. A force vector is tied to one mass; \<^verbatim>\<open>update()\<close> re-reads that mass
  and changes nothing the plank reads.
\<close>

record Mass =
  position :: Vector2
  rotationAngle :: real
  massValue :: real
  onPlank :: bool
  height :: real

definition getMiddlePoint :: "Mass \<Rightarrow> Vector2" where
  "getMiddlePoint m = Vector2 (vx (position m)) (vy (position m) + height m / 2)"

datatype MassForceVector = MassForceVector (fv_mass: nat)

text \<open>
  The fields of the plank that its methods read or write (\<^verbatim>\<open>massForceVectors\<close> and
  \<^verbatim>\<open>tickMarks\<close> are set by the constructor and never used; \<^verbatim>\<open>isTickMarkOccupied\<close>
  and \<^verbatim>\<open>updateTickMarks\<close> change nothing). \<^verbatim>\<open>massesOnSurface\<close>, \<^verbatim>\<open>forceVectors\<close> and the
  indexed elements of \<^verbatim>\<open>massDistancePairs\<close> are lists; masses are referred to by their
  index in the store \<^verbatim>\<open>masses\<close>, so that two references to one mass see the same
  fields. \<^verbatim>\<open>massDistanceProps\<close> holds the properties of the array object
  \<^verbatim>\<open>massDistancePairs\<close> that are not indices (line 157 writes one).
  \<^verbatim>\<open>columnState\<close> is the current value of the column-state property.
\<close>

record Plank =
  bottomCenterLocation :: Vector2
  tiltAngle :: real
  shape :: "Vector2 list"
  userControlled :: bool
  massesOnSurface :: "nat list"
  forceVectors :: "MassForceVector list"
  pivotPoint :: Vector2
  columnState :: string
  angularVelocity :: real
  currentNetTorque :: real
  maxTiltAngle :: real
  massDistancePairs :: "(nat \<times> real) list"
  massDistanceProps :: "string \<rightharpoonup> real"
  unrotatedShape :: "Vector2 list"
  turningRight :: bool
  masses :: "nat \<Rightarrow> Mass"

definition outline :: "Vector2 list" where
  "outline =
     [Vector2 0 0, Vector2 (PLANK_LENGTH / 2) 0, Vector2 (PLANK_LENGTH / 2) PLANK_THICKNESS,
      Vector2 0 PLANK_THICKNESS, Vector2 (- PLANK_LENGTH / 2) PLANK_THICKNESS,
      Vector2 (- PLANK_LENGTH / 2) 0, Vector2 0 0]"

definition new_Plank :: "Vector2 \<Rightarrow> Vector2 \<Rightarrow> string \<Rightarrow> (nat \<Rightarrow> Mass) \<Rightarrow> Plank" where
  "new_Plank location pivot cs store =
     \<lparr> bottomCenterLocation = location,
       tiltAngle = 0,
       shape = map (translation location) outline,
       userControlled = False,
       massesOnSurface = [],
       forceVectors = [],
       pivotPoint = pivot,
       columnState = cs,
       angularVelocity = 0,
       currentNetTorque = 0,
       maxTiltAngle = arcsin (vy location / (PLANK_LENGTH / 2)),
       massDistancePairs = [],
       massDistanceProps = Map.empty,
       unrotatedShape = map (translation location) outline,
       turningRight = True,
       masses = store \<rparr>"

subsection \<open>Torque\<close>

text \<open>
  \<^verbatim>\<open>updateNetTorque\<close> (lines 397-413). The two lines that add the torque of the masses
  and of the plank are commented out in the source; what runs is the block marked
  \<^verbatim>\<open>TODO: Temp for test and demo\<close>. \<^verbatim>\<open>1 * this.turningRight ? 1 : -1\<close> parses as
  \<^verbatim>\<open>( 1 * this.turningRight ) ? 1 : -1\<close>; the product is 1 or 0.
\<close>

definition updateNetTorque :: "Plank \<Rightarrow> Plank" where
  "updateNetTorque this =
     (if columnState this = ''none'' then
        (let tr = (if (turningRight this \<and> maxTiltAngle this - tiltAngle this < 0.001) \<or>
                      (\<not> turningRight this \<and> maxTiltAngle this + tiltAngle this < 0.001)
                   then \<not> turningRight this else turningRight this)
         in this\<lparr> turningRight := tr,
                  currentNetTorque := (if (1::real) * (if tr then 1 else 0) \<noteq> 0 then 1 else - 1) \<rparr>)
      else this\<lparr> currentNetTorque := 0 \<rparr>)"

text \<open>\<^verbatim>\<open>getTorqueDueToMasses\<close> (lines 415-422); nothing calls it. The product binds
  tighter than the difference.\<close>

fun getTorqueDueToMasses_from :: "Plank \<Rightarrow> nat list \<Rightarrow> real \<Rightarrow> real" where
  "getTorqueDueToMasses_from thisPlank [] torque = torque"
| "getTorqueDueToMasses_from thisPlank (m # ms) torque =
     getTorqueDueToMasses_from thisPlank ms
       (torque + (vx (pivotPoint thisPlank)
                   - vx (position (masses thisPlank m)) * massValue (masses thisPlank m)))"

definition getTorqueDueToMasses :: "Plank \<Rightarrow> real" where
  "getTorqueDueToMasses this = getTorqueDueToMasses_from this (massesOnSurface this) 0"

subsection \<open>Distances of the masses\<close>

text \<open>
  \<^verbatim>\<open>getMassDistanceFromCenter\<close> (lines 252-259). The loop's bound is the array itself,
  \<^verbatim>\<open>i < this.massDistancePairs\<close>: the comparison converts the array to a number, which
  is 0 for the empty array and NaN for an array of pair objects (\<^verbatim>\<open>None\<close> here), and a
  comparison with NaN is false. Reading \<^verbatim>\<open>.mass\<close> of an element that is not there
  throws.
\<close>

definition toNumber_array :: "'a list \<Rightarrow> real option" where
  "toNumber_array xs = (if xs = [] then Some 0 else None)"

fun pairsScan :: "(nat \<times> real) list \<Rightarrow> nat \<Rightarrow> nat \<Rightarrow> nat \<Rightarrow> real outcome" where
  "pairsScan ps mass i 0 = Ret 0"
| "pairsScan ps mass i (Suc n) =
     (if i < length ps then
        (if fst (ps ! i) = mass then Ret (snd (ps ! i)) else pairsScan ps mass (i + 1) n)
      else Throw TypeError)"

definition getMassDistanceFromCenter :: "Plank \<Rightarrow> nat \<Rightarrow> real outcome" where
  "getMassDistanceFromCenter this mass =
     (case toNumber_array (massDistancePairs this) of
        None \<Rightarrow> Ret 0
      | Some b \<Rightarrow> pairsScan (massDistancePairs this) mass 0 (nat \<lceil>b\<rceil>))"

subsection \<open>Geometry of the plank\<close>

text \<open>
  \<^verbatim>\<open>getPlankSurfaceCenter\<close> (lines 359-364), \<^verbatim>\<open>getSurfaceYValue\<close> (368-375),
  \<^verbatim>\<open>isPointAbovePlank\<close> (377-380).

  Modelled from the spec: the constructor of \<^verbatim>\<open>Vector2\<close> is not among the sources.
  Line 363 hands it one vector, \<^verbatim>\<open>new Vector2( this.bottomCenterLocation )\<close>, where
  every other call hands it two numbers; the call is read as a copy of that vector,
  which makes \<^verbatim>\<open>getPlankSurfaceCenter\<close> the point of section 4.4 of the spec, the
  top centre of the plank derived from the bottom centre, the thickness and the tilt
  angle. The point is read by \<^verbatim>\<open>attach\<close> (the distance it records), by
  \<^verbatim>\<open>addMassToSurfaceAt\<close> (the position it gives the mass) and by
  \<^verbatim>\<open>isPointAbovePlank\<close>.
\<close>

definition getPlankSurfaceCenter :: "Plank \<Rightarrow> Vector2" where
  "getPlankSurfaceCenter this =
     plusV (bottomCenterLocation this) (rotated (Vector2 0 PLANK_THICKNESS) (tiltAngle this))"

definition getSurfaceYValue :: "Plank \<Rightarrow> real \<Rightarrow> real" where
  "getSurfaceYValue this xValue =
     (let m = tan (tiltAngle this);
          b = vy (getPlankSurfaceCenter this) - m * vx (getPlankSurfaceCenter this)
      in m * xValue + b)"

definition isPointAbovePlank :: "Plank \<Rightarrow> Vector2 \<Rightarrow> bool" where
  "isPointAbovePlank this p =
     (vx p \<ge> bounds_minX (shape this) \<and> vx p \<le> bounds_maxX (shape this)
      \<and> vy p > getSurfaceYValue this (vx p))"

text \<open>
  \<^verbatim>\<open>updatePlank\<close> (lines 261-269). The guard reads \<^verbatim>\<open>this.unrotatedShape.minY\<close>; a
  shape keeps its extent under \<^verbatim>\<open>bounds\<close> (as lines 427-428 read it) and has no
  property \<^verbatim>\<open>minY\<close>, so the guard compares with \<^verbatim>\<open>undefined\<close> and is false. The
  last statement assigns \<^verbatim>\<open>bottomCenterPoint\<close>, a field nothing reads;
  \<^verbatim>\<open>bottomCenterLocation\<close> keeps the value the constructor gave it.
\<close>

definition Shape_minY :: "Vector2 list \<Rightarrow> real option" where
  "Shape_minY s = None"

definition js_ge :: "real \<Rightarrow> real option \<Rightarrow> bool" where
  "js_ge a b = (case b of None \<Rightarrow> False | Some b' \<Rightarrow> a \<ge> b')"

definition updatePlank :: "Plank \<Rightarrow> unit outcome \<times> Plank" where
  "updatePlank this =
     (if js_ge (vy (pivotPoint this)) (Shape_minY (unrotatedShape this)) then
        (Throw (Error ''Pivot point cannot be below the plank.''), this)
      else
        (Ret (), this\<lparr> shape := map (rotationAround (tiltAngle this) (pivotPoint this))
                                    (unrotatedShape this) \<rparr>))"

subsection \<open>Callbacks\<close>

text \<open>
  \<^verbatim>\<open>forEach\<close> calls its callback on each element in order and stops at the first
  throw. The file is in strict mode and no \<^verbatim>\<open>forEach\<close> here is given a second
  argument, so inside a callback \<^verbatim>\<open>this\<close> is not the plank: a callback that reads
  \<^verbatim>\<open>this.getMassDistanceFromCenter\<close> or \<^verbatim>\<open>this.tiltAngle\<close> throws a TypeError
  there, and one that uses the variable \<^verbatim>\<open>thisPlank\<close> reads the plank. The
  callbacks below take the receiver they run with as their first argument.
\<close>

datatype receiver = Undefined | ThePlank

definition forEach_receiver :: receiver where
  "forEach_receiver = Undefined"

fun forEach :: "('s \<Rightarrow> 'a \<Rightarrow> unit outcome \<times> 's) \<Rightarrow> 'a list \<Rightarrow> 's \<Rightarrow> unit outcome \<times> 's" where
  "forEach f [] s = (Ret (), s)"
| "forEach f (x # xs) s =
     (case f s x of
        (Throw e, s') \<Rightarrow> (Throw e, s')
      | (Ret u, s') \<Rightarrow> forEach f xs s')"

text \<open>\<^verbatim>\<open>updateMassPositions\<close> (lines 196-213).\<close>

definition setMass :: "Plank \<Rightarrow> nat \<Rightarrow> Mass \<Rightarrow> Plank" where
  "setMass p k m = p\<lparr> masses := (masses p)(k := m) \<rparr>"

definition updateMassPositions_each :: "receiver \<Rightarrow> Plank \<Rightarrow> nat \<Rightarrow> unit outcome \<times> Plank" where
  "updateMassPositions_each rcv thisPlank mass =
     (case rcv of
        Undefined \<Rightarrow> (Throw TypeError, thisPlank)
      | ThePlank \<Rightarrow>
          (case getMassDistanceFromCenter thisPlank mass of
             Throw e \<Rightarrow> (Throw e, thisPlank)
           | Ret d \<Rightarrow>
               (let vectorFromCenterToMass = rotated (Vector2 d 0) (tiltAngle thisPlank)
                in (Ret (),
                    setMass thisPlank mass
                      ((masses thisPlank mass)
                         \<lparr> position := plusV (getPlankSurfaceCenter thisPlank) vectorFromCenterToMass,
                           rotationAngle := tiltAngle thisPlank \<rparr>)))))"

definition updateMassPositions :: "Plank \<Rightarrow> unit outcome \<times> Plank" where
  "updateMassPositions this =
     (case forEach (updateMassPositions_each forEach_receiver) (massesOnSurface this) this of
        (Throw e, p) \<Rightarrow> (Throw e, p)
      | (Ret u, p) \<Rightarrow> forEach (\<lambda>s forceVector. (Ret (), s)) (forceVectors p) p)"

subsection \<open>The simulation step\<close>

text \<open>\<^verbatim>\<open>step\<close> (lines 108-148): the thresholds of lines 119 and 121, the integration
  and the limits of lines 124-135, and the refresh of lines 139-142.\<close>

definition thresholded :: "real \<Rightarrow> real" where
  "thresholded a = (if \<bar>a\<bar> > 0.00001 then a else 0)"

definition nextAngularVelocity :: "Plank \<Rightarrow> real" where
  "nextAngularVelocity p =
     thresholded (angularVelocity p + thresholded (currentNetTorque p / MOMENT_OF_INERTIA))"

definition integratedTilt :: "Plank \<Rightarrow> real \<Rightarrow> real" where
  "integratedTilt p dt = tiltAngle p + nextAngularVelocity p * dt"

definition limitTilt :: "Plank \<Rightarrow> real \<Rightarrow> Plank" where
  "limitTilt p dt =
     (let t = integratedTilt p dt in
      if \<bar>t\<bar> > maxTiltAngle p then
        p\<lparr> tiltAngle := maxTiltAngle p * (if t < 0 then - 1 else 1), angularVelocity := 0 \<rparr>
      else if \<bar>t\<bar> < 0.0001 then
        p\<lparr> tiltAngle := 0, angularVelocity := nextAngularVelocity p \<rparr>
      else
        p\<lparr> tiltAngle := t, angularVelocity := nextAngularVelocity p \<rparr>)"

definition step :: "Plank \<Rightarrow> real \<Rightarrow> unit outcome \<times> Plank" where
  "step this dt =
     (if \<not> userControlled this then
        (let p1 = updateNetTorque this;
             previousTiltAngle = tiltAngle p1;
             p2 = limitTilt p1 dt
         in if tiltAngle p2 \<noteq> previousTiltAngle then
              (case updatePlank p2 of
                 (Throw e, p3) \<Rightarrow> (Throw e, p3)
               | (Ret u, p3) \<Rightarrow> updateMassPositions p3)
            else (Ret (), p2))
      else (Ret (), this))"

text \<open>\<^verbatim>\<open>forceAngle\<close>, \<^verbatim>\<open>forceToLevelAndStill\<close>, \<^verbatim>\<open>forceToMaxAndStill\<close> (lines 313-330).\<close>

definition forceAngle :: "Plank \<Rightarrow> real \<Rightarrow> unit outcome \<times> Plank" where
  "forceAngle this angle =
     (case updatePlank (this\<lparr> angularVelocity := 0, tiltAngle := angle \<rparr>) of
        (Throw e, p) \<Rightarrow> (Throw e, p)
      | (Ret u, p) \<Rightarrow> updateMassPositions p)"

definition forceToLevelAndStill :: "Plank \<Rightarrow> unit outcome \<times> Plank" where
  "forceToLevelAndStill this = forceAngle this 0.0"

definition forceToMaxAndStill :: "Plank \<Rightarrow> unit outcome \<times> Plank" where
  "forceToMaxAndStill this = forceAngle this (maxTiltAngle this)"

subsection \<open>Array methods\<close>

text \<open>
  \<^verbatim>\<open>indexOf\<close> gives the first index of an element, or -1. \<^verbatim>\<open>splice( start, count )\<close>
  counts a negative start from the end, removes \<^verbatim>\<open>count\<close> elements from there
  (\<^verbatim>\<open>splice_kept\<close> is the array afterwards) and returns the removed elements
  (\<^verbatim>\<open>splice_removed\<close>). The observable arrays are read as arrays: \<^verbatim>\<open>push\<close>,
  \<^verbatim>\<open>indexOf\<close>, \<^verbatim>\<open>splice\<close>, \<^verbatim>\<open>slice\<close>, \<^verbatim>\<open>forEach\<close>, \<^verbatim>\<open>length\<close> and indexing
  are those of \<^verbatim>\<open>Array\<close>.
\<close>

fun indexOf :: "'a list \<Rightarrow> 'a \<Rightarrow> int" where
  "indexOf [] v = - 1"
| "indexOf (x # xs) v =
     (if x = v then 0 else (let i = indexOf xs v in if i < 0 then - 1 else i + 1))"

definition splice_start :: "'a list \<Rightarrow> int \<Rightarrow> nat" where
  "splice_start xs start =
     (if start < 0 then nat (max (int (length xs) + start) 0) else min (nat start) (length xs))"

definition splice_removed :: "'a list \<Rightarrow> int \<Rightarrow> nat \<Rightarrow> 'a list" where
  "splice_removed xs start count = take count (drop (splice_start xs start) xs)"

definition splice_kept :: "'a list \<Rightarrow> int \<Rightarrow> nat \<Rightarrow> 'a list" where
  "splice_kept xs start count =
     take (splice_start xs start) xs @ drop (splice_start xs start + count) xs"

subsection \<open>Slot resolution\<close>

text \<open>
  \<^verbatim>\<open>getSnapToLocations\<close> (lines 424-435). \<^verbatim>\<open>snapToLocations\<close> is a built-in array
  (\<^verbatim>\<open>new Array( n )\<close>: n empty slots, no elements), and the loop calls
  \<^verbatim>\<open>snapToLocations.add\<close>. \<^verbatim>\<open>Array\<close> has \<^verbatim>\<open>push\<close> and no \<^verbatim>\<open>add\<close>: the call
  throws a TypeError in the first iteration.
\<close>

definition Array_add :: "Vector2 list \<Rightarrow> Vector2 \<Rightarrow> Vector2 list outcome" where
  "Array_add xs v = Throw TypeError"

fun getSnapToLocations_loop :: "Plank \<Rightarrow> nat \<Rightarrow> nat \<Rightarrow> Vector2 list \<Rightarrow> Vector2 list outcome" where
  "getSnapToLocations_loop this i 0 snapToLocations = Ret snapToLocations"
| "getSnapToLocations_loop this i (Suc n) snapToLocations =
     (let unrotatedPoint =
            Vector2 (bounds_minX (unrotatedShape this) + (real i + 1) * INTER_SNAP_TO_MARKER_DISTANCE)
                    (bounds_maxY (unrotatedShape this))
      in case Array_add snapToLocations
                (rotationAround (tiltAngle this) (pivotPoint this) unrotatedPoint) of
           Throw e \<Rightarrow> Throw e
         | Ret xs \<Rightarrow> getSnapToLocations_loop this (i + 1) n xs)"

definition getSnapToLocations :: "Plank \<Rightarrow> Vector2 list outcome" where
  "getSnapToLocations this = getSnapToLocations_loop this 0 NUM_SNAP_TO_LOCATIONS []"

text \<open>
  \<^verbatim>\<open>getOpenMassDroppedLocation\<close> (lines 273-307), from the candidate list on.
  \<^verbatim>\<open>splice( NUM_SNAP_TO_LOCATIONS / 2, 1 )\<close> truncates its start. In the occupancy
  loops, line 290 hands \<^verbatim>\<open>_.without\<close> the list of locations and the mass
  \<^verbatim>\<open>this.massesOnSurface[j]\<close>: \<^verbatim>\<open>without\<close> drops the elements identical to that
  value, and a location is never a mass.
\<close>

datatype jsobject = LocationObject Vector2 | MassObject nat

definition without_mass :: "Vector2 list \<Rightarrow> nat \<Rightarrow> Vector2 list" where
  "without_mass locations mass = filter (\<lambda>l. LocationObject l \<noteq> MassObject mass) locations"

definition removeCenter :: "Vector2 list \<Rightarrow> Vector2 list" where
  "removeCenter candidates =
     (if NUM_SNAP_TO_LOCATIONS mod 2 = 1
      then splice_kept candidates (int (NUM_SNAP_TO_LOCATIONS div 2)) 1 else candidates)"

fun occupied_inner :: "Plank \<Rightarrow> Vector2 \<Rightarrow> nat list \<Rightarrow> Vector2 list \<Rightarrow> Vector2 list" where
  "occupied_inner this c [] candidates = candidates"
| "occupied_inner this c (m # ms) candidates =
     occupied_inner this c ms
       (if distance (position (masses this m)) c < INTER_SNAP_TO_MARKER_DISTANCE / 10
        then without_mass candidates m else candidates)"

fun occupied_outer :: "Plank \<Rightarrow> Vector2 list \<Rightarrow> Vector2 list \<Rightarrow> Vector2 list" where
  "occupied_outer this [] candidates = candidates"
| "occupied_outer this (c # cs) candidates =
     occupied_outer this cs (occupied_inner this c (massesOnSurface this) candidates)"

fun closest_of :: "Vector2 \<Rightarrow> Vector2 list \<Rightarrow> Vector2 option \<Rightarrow> Vector2 option" where
  "closest_of p [] closestOpenLocation = closestOpenLocation"
| "closest_of p (c # cs) closestOpenLocation =
     closest_of p cs
       (if \<bar>vx c - vx p\<bar> \<le> INTER_SNAP_TO_MARKER_DISTANCE then
          (case closestOpenLocation of
             None \<Rightarrow> Some c
           | Some b \<Rightarrow> if distance c p < distance b p then Some c else Some b)
        else closestOpenLocation)"

definition getOpenMassDroppedLocation_from :: "Vector2 list \<Rightarrow> Plank \<Rightarrow> Vector2 \<Rightarrow> Vector2 option" where
  "getOpenMassDroppedLocation_from snapToLocations this p =
     (let candidateOpenLocations = removeCenter snapToLocations;
          copyOfCandidateLocations = candidateOpenLocations
      in closest_of p (occupied_outer this copyOfCandidateLocations candidateOpenLocations) None)"

definition getOpenMassDroppedLocation :: "Plank \<Rightarrow> Vector2 \<Rightarrow> Vector2 option outcome" where
  "getOpenMassDroppedLocation this p =
     (case getSnapToLocations this of
        Throw e \<Rightarrow> Throw e
      | Ret snapToLocations \<Rightarrow> Ret (getOpenMassDroppedLocation_from snapToLocations this p))"

subsection \<open>Attaching\<close>

text \<open>
  \<^verbatim>\<open>addMassToSurface\<close> (lines 151-181). \<^verbatim>\<open>attach\<close> is the body of its conditional.
  Line 157 writes the distance under the key \<^verbatim>\<open>mass\<close> of the array, that is under the
  string a mass converts to; no element is appended. The observer of lines 163-173
  acts when a mass is picked up, which none of the operations here does.
\<close>

definition toString_object :: string where
  "toString_object = ''[object Object]''"

definition attach :: "Plank \<Rightarrow> nat \<Rightarrow> Vector2 \<Rightarrow> bool outcome \<times> Plank" where
  "attach this mass closestOpenLocation =
     (let p1 = setMass this mass
                 ((masses this mass)\<lparr> position := closestOpenLocation, onPlank := True \<rparr>);
          d = distance (getPlankSurfaceCenter p1) (position (masses p1 mass))
                * (if vx (position (masses p1 mass)) > vx (getPlankSurfaceCenter p1) then 1 else - 1);
          p2 = p1\<lparr> massDistanceProps := (massDistanceProps p1)(toString_object \<mapsto> d) \<rparr>;
          p3 = p2\<lparr> forceVectors := forceVectors p2 @ [MassForceVector mass] \<rparr>;
          p4 = p3\<lparr> massesOnSurface := massesOnSurface p3 @ [mass] \<rparr>
      in case updateMassPositions p4 of
           (Throw e, p5) \<Rightarrow> (Throw e, p5)
         | (Ret u, p5) \<Rightarrow> (Ret True, updateNetTorque p5))"

definition addMassToSurface :: "Plank \<Rightarrow> nat \<Rightarrow> bool outcome \<times> Plank" where
  "addMassToSurface this mass =
     (case getOpenMassDroppedLocation this (position (masses this mass)) of
        Throw e \<Rightarrow> (Throw e, this)
      | Ret closestOpenLocation \<Rightarrow>
          (case closestOpenLocation of
             None \<Rightarrow> (Ret False, this)
           | Some l \<Rightarrow>
               if isPointAbovePlank this (getMiddlePoint (masses this mass))
               then attach this mass l else (Ret False, this)))"

text \<open>\<^verbatim>\<open>addMassToSurfaceAt\<close> (lines 184-194). \<^verbatim>\<open>assert\<close> is taken to be a global
  function that throws when its argument is false.\<close>

definition js_assert :: "bool \<Rightarrow> unit outcome" where
  "js_assert c = (if c then Ret () else Throw (Error ''Assertion failed''))"

definition addMassToSurfaceAt :: "Plank \<Rightarrow> nat \<Rightarrow> real \<Rightarrow> unit outcome \<times> Plank" where
  "addMassToSurfaceAt this mass distanceFromCenter =
     (if distanceFromCenter \<le> PLANK_LENGTH / 2 then
        (Throw (Error ''Warning: Attempt to add mass at invalid distance from center''), this)
      else
        (let vectorToLocation =
               plusV (getPlankSurfaceCenter this)
                     (rotated (Vector2 distanceFromCenter 0) (tiltAngle this));
             p1 = setMass this mass
                    ((masses this mass)
                       \<lparr> position := Vector2 (vx vectorToLocation) (vy vectorToLocation + 0.01) \<rparr>)
         in case js_assert (isPointAbovePlank p1 (position (masses p1 mass))) of
              Throw e \<Rightarrow> (Throw e, p1)
            | Ret u \<Rightarrow>
                (case addMassToSurface p1 mass of
                   (Throw e, p2) \<Rightarrow> (Throw e, p2)
                 | (Ret b, p2) \<Rightarrow> (Ret (), p2))))"

subsection \<open>Detaching\<close>

text \<open>
  \<^verbatim>\<open>removeMassFromSurface\<close> (lines 215-242). Line 218 assigns to
  \<^verbatim>\<open>massesOnSurface\<close> what \<^verbatim>\<open>splice\<close> returns, the removed elements, with the
  result of \<^verbatim>\<open>indexOf\<close> as the start, found or not. The loop of lines 221-226 does
  the same to \<^verbatim>\<open>massDistancePairs\<close> at the first pair of the mass (the new array has
  no other property). The loop of lines 233-238 runs over the indices of
  \<^verbatim>\<open>massDistancePairs\<close> and reads \<^verbatim>\<open>forceVectors[j].mass\<close>, which throws where
  \<^verbatim>\<open>forceVectors\<close> has no element; its \<^verbatim>\<open>splice\<close> is in place.
\<close>

fun removePair_loop :: "Plank \<Rightarrow> nat \<Rightarrow> nat \<Rightarrow> nat \<Rightarrow> Plank" where
  "removePair_loop this mass i 0 = this"
| "removePair_loop this mass i (Suc n) =
     (if fst (massDistancePairs this ! i) = mass then
        this\<lparr> massDistancePairs := splice_removed (massDistancePairs this) (int i) 1,
              massDistanceProps := Map.empty \<rparr>
      else removePair_loop this mass (i + 1) n)"

fun removeForceVector_loop :: "Plank \<Rightarrow> nat \<Rightarrow> nat \<Rightarrow> nat \<Rightarrow> unit outcome \<times> Plank" where
  "removeForceVector_loop this mass j 0 = (Ret (), this)"
| "removeForceVector_loop this mass j (Suc n) =
     (if j < length (forceVectors this) then
        (if fv_mass (forceVectors this ! j) = mass then
           (Ret (), this\<lparr> forceVectors := splice_kept (forceVectors this) (int j) 1 \<rparr>)
         else removeForceVector_loop this mass (j + 1) n)
      else (Throw TypeError, this))"

definition removeMassFromSurface :: "Plank \<Rightarrow> nat \<Rightarrow> unit outcome \<times> Plank" where
  "removeMassFromSurface this mass =
     (let p1 = this\<lparr> massesOnSurface :=
                      splice_removed (massesOnSurface this) (indexOf (massesOnSurface this) mass) 1 \<rparr>;
          p2 = removePair_loop p1 mass 0 (length (massDistancePairs p1));
          p3 = setMass p2 mass ((masses p2 mass)\<lparr> rotationAngle := 0, onPlank := False \<rparr>)
      in case removeForceVector_loop p3 mass 0 (length (massDistancePairs p3)) of
           (Throw e, p4) \<Rightarrow> (Throw e, p4)
         | (Ret u, p4) \<Rightarrow> (Ret (), updateNetTorque p4))"

text \<open>\<^verbatim>\<open>removeAllMasses\<close> (lines 244-250) calls \<^verbatim>\<open>thisPlank.removeMass\<close> on each mass
  of a copy of the list. The plank defines \<^verbatim>\<open>removeMassFromSurface\<close> and no
  \<^verbatim>\<open>removeMass\<close>: the call throws a TypeError.\<close>

definition Plank_removeMass :: "(Plank \<Rightarrow> nat \<Rightarrow> unit outcome \<times> Plank) option" where
  "Plank_removeMass = None"

definition removeAllMasses_each :: "Plank \<Rightarrow> nat \<Rightarrow> unit outcome \<times> Plank" where
  "removeAllMasses_each thisPlank mass =
     (case Plank_removeMass of
        None \<Rightarrow> (Throw TypeError, thisPlank)
      | Some removeMass \<Rightarrow> removeMass thisPlank mass)"

definition removeAllMasses :: "Plank \<Rightarrow> unit outcome \<times> Plank" where
  "removeAllMasses this =
     (let massesCopy = massesOnSurface this in forEach removeAllMasses_each massesCopy this)"

subsection \<open>Balance\<close>

text \<open>\<^verbatim>\<open>isBalanced\<close> (lines 387-395). The callback adds to the local variable
  \<^verbatim>\<open>unCompensatedTorque\<close>, the state of the loop here, and reads
  \<^verbatim>\<open>this.getMassDistanceFromCenter\<close>; \<^verbatim>\<open>mass.mass\<close> is read as the mass value.\<close>

definition isBalanced_each :: "receiver \<Rightarrow> Plank \<Rightarrow> real \<Rightarrow> nat \<Rightarrow> unit outcome \<times> real" where
  "isBalanced_each rcv plank unCompensatedTorque mass =
     (case rcv of
        Undefined \<Rightarrow> (Throw TypeError, unCompensatedTorque)
      | ThePlank \<Rightarrow>
          (case getMassDistanceFromCenter plank mass of
             Throw e \<Rightarrow> (Throw e, unCompensatedTorque)
           | Ret d \<Rightarrow> (Ret (), unCompensatedTorque + massValue (masses plank mass) * d)))"

definition isBalanced :: "Plank \<Rightarrow> bool outcome" where
  "isBalanced this =
     (case forEach (isBalanced_each forEach_receiver this) (massesOnSurface this) 0 of
        (Throw e, unCompensatedTorque) \<Rightarrow> Throw e
      | (Ret u, unCompensatedTorque) \<Rightarrow> Ret (\<bar>unCompensatedTorque\<bar> < 0.000001))"

subsection \<open>Runs\<close>

text \<open>
  The planks that calls can produce: a plank is constructed, at any place and with any
  pivot, and then any of the methods is called, with any argument, whether it returns
  or throws. The column state, the plank's \<^verbatim>\<open>userControlled\<close> flag and the masses
  belong to the callers, who may change them between calls.
\<close>

inductive reachable :: "Plank \<Rightarrow> bool" where
  constructed: "reachable (new_Plank location pivot cs store)"
| stepped: "reachable p \<Longrightarrow> reachable (snd (step p dt))"
| forced: "reachable p \<Longrightarrow> reachable (snd (forceAngle p angle))"
| levelled: "reachable p \<Longrightarrow> reachable (snd (forceToLevelAndStill p))"
| maxed: "reachable p \<Longrightarrow> reachable (snd (forceToMaxAndStill p))"
| added: "reachable p \<Longrightarrow> reachable (snd (addMassToSurface p mass))"
| addedAt: "reachable p \<Longrightarrow> reachable (snd (addMassToSurfaceAt p mass d))"
| removed: "reachable p \<Longrightarrow> reachable (snd (removeMassFromSurface p mass))"
| removedAll: "reachable p \<Longrightarrow> reachable (snd (removeAllMasses p))"
| columns: "reachable p \<Longrightarrow> reachable (p\<lparr> columnState := cs \<rparr>)"
| controlled: "reachable p \<Longrightarrow> reachable (p\<lparr> userControlled := b \<rparr>)"
| masses_moved: "reachable p \<Longrightarrow> reachable (p\<lparr> masses := store \<rparr>)"

fun steps :: "Plank \<Rightarrow> real list \<Rightarrow> Plank" where
  "steps p [] = p"
| "steps p (dt # dts) = steps (snd (step p dt)) dts"

subsection \<open>What the claims speak of\<close>

definition dynamics_of :: "Plank \<Rightarrow> real \<times> real \<times> real" where
  "dynamics_of p = (tiltAngle p, maxTiltAngle p, angularVelocity p)"

definition tilt_ok :: "Plank \<Rightarrow> bool" where
  "tilt_ok p = (0 \<le> maxTiltAngle p \<and> \<bar>tiltAngle p\<bar> \<le> maxTiltAngle p)"





text \<open>The sum that \<^verbatim>\<open>isBalanced\<close> is to compare with 1e-6: over the attached masses,
  mass value times the distance that \<^verbatim>\<open>getMassDistanceFromCenter\<close> gives.\<close>

definition distanceFromCenter :: "Plank \<Rightarrow> nat \<Rightarrow> real" where
  "distanceFromCenter p m = (case getMassDistanceFromCenter p m of Ret d \<Rightarrow> d | Throw e \<Rightarrow> 0)"



subsection \<open>Example planks\<close>

text \<open>
  A 5 kg brick and a 10 kg weight lying off the plank; mass 3 of the store is the
  weight, every other one a brick. \<^verbatim>\<open>plank0\<close> is a new plank without support columns,
  its bottom centre 0.75 above the ground and its pivot above it. \<^verbatim>\<open>plank2\<close> is
  \<^verbatim>\<open>plank0\<close> as the body of \<^verbatim>\<open>addMassToSurface\<close> leaves it when it runs for brick 0 at
  0.5 to the left and for brick 1 at 0.5 to the right of the centre; as the code stands
  \<^verbatim>\<open>addMassToSurface\<close> throws before it reaches that body, so no call produces
  \<^verbatim>\<open>plank2\<close>. \<^verbatim>\<open>plank_columns\<close> and \<^verbatim>\<open>plank_locked\<close> are \<^verbatim>\<open>plank0\<close> on two support
  columns, turning and at rest. \<^verbatim>\<open>plank_low\<close> is constructed with its bottom centre 1
  below the ground; \<^verbatim>\<open>plank_forced\<close> is \<^verbatim>\<open>plank0\<close> forced to the angle 10 and then
  taken in hand by the user. \<^verbatim>\<open>plank_used\<close> is \<^verbatim>\<open>plank0\<close> after a step and a call of
  each of the four methods that attach and detach.
\<close>

definition brick :: Mass where
  "brick = \<lparr> position = Vector2 0 2, rotationAngle = 0, massValue = 5, onPlank = False,
             height = 0.2 \<rparr>"

definition weight10 :: Mass where
  "weight10 = \<lparr> position = Vector2 1 2, rotationAngle = 0, massValue = 10, onPlank = False,
                height = 0.4 \<rparr>"

definition store0 :: "nat \<Rightarrow> Mass" where
  "store0 k = (if k = 3 then weight10 else brick)"

definition plank0 :: Plank where
  "plank0 = new_Plank (Vector2 0 0.75) (Vector2 0 1) ''none'' store0"

definition plank2 :: Plank where
  "plank2 = snd (attach (snd (attach plank0 0 (Vector2 (- 0.5) 0.8))) 1 (Vector2 0.5 0.8))"

definition plank_columns :: Plank where
  "plank_columns = plank0\<lparr> columnState := ''double'', angularVelocity := 0.5 \<rparr>"

definition plank_locked :: Plank where
  "plank_locked = plank0\<lparr> columnState := ''double'' \<rparr>"

definition plank_low :: Plank where
  "plank_low = new_Plank (Vector2 0 (- 1)) (Vector2 0 1) ''none'' store0"

definition plank_forced :: Plank where
  "plank_forced = (snd (forceAngle plank0 10))\<lparr> userControlled := True \<rparr>"


section \<open>Properties\<close>

subsection \<open>The attach path stops in \<^verbatim>\<open>getSnapToLocations\<close>\<close>

lemma NUM_17: "NUM_SNAP_TO_LOCATIONS = 17"
  by (simp add: NUM_SNAP_TO_LOCATIONS_def PLANK_LENGTH_def INTER_SNAP_TO_MARKER_DISTANCE_def)

lemma getSnapToLocations_throws: "getSnapToLocations p = Throw TypeError"
  by (simp add: getSnapToLocations_def NUM_17 eval_nat_numeral Array_add_def)

lemma getOpenMassDroppedLocation_throws: "getOpenMassDroppedLocation p v = Throw TypeError"
  by (simp add: getOpenMassDroppedLocation_def getSnapToLocations_throws)

lemma addMassToSurface_throws: "addMassToSurface p m = (Throw TypeError, p)"
  by (simp add: addMassToSurface_def getOpenMassDroppedLocation_throws)

subsection \<open>What the methods leave of the tilt angle, its limit and the angular velocity\<close>

lemma forEach_preserves:
  assumes "\<And>s x. P s \<Longrightarrow> P (snd (f s x))" and "P s"
  shows "P (snd (forEach f xs s))"
  using assms(2)
proof (induction xs arbitrary: s)
  case Nil
  then show ?case by simp
next
  case (Cons x xs)
  have px: "P (snd (f s x))" using assms(1) Cons.prems by blast
  show ?case
  proof (cases "f s x")
    case (Pair r s')
    with px have ps': "P s'" by simp
    show ?thesis
    proof (cases r)
      case (Ret u)
      with Pair Cons.IH [OF ps'] show ?thesis by simp
    next
      case (Throw e)
      with Pair ps' show ?thesis by simp
    qed
  qed
qed

lemma updateMassPositions_each_tilt:
  "dynamics_of (snd (updateMassPositions_each r s x)) = dynamics_of s"
  by (simp add: updateMassPositions_each_def dynamics_of_def setMass_def Let_def
      split: receiver.splits outcome.splits)

lemma updateMassPositions_tilt: "dynamics_of (snd (updateMassPositions p)) = dynamics_of p"
proof -
  let ?P = "\<lambda>q. dynamics_of q = dynamics_of p"
  have a: "?P (snd (forEach (updateMassPositions_each forEach_receiver) (massesOnSurface p) p))"
    by (rule forEach_preserves [where P = ?P]) (simp_all add: updateMassPositions_each_tilt)
  obtain r q where rq: "forEach (updateMassPositions_each forEach_receiver) (massesOnSurface p) p = (r, q)"
    by (cases "forEach (updateMassPositions_each forEach_receiver) (massesOnSurface p) p")
  with a have q: "dynamics_of q = dynamics_of p" by simp
  have b: "?P (snd (forEach (\<lambda>s forceVector. (Ret (), s)) (forceVectors q) q))"
    by (rule forEach_preserves [where P = ?P]) (simp_all add: q)
  show ?thesis
    using rq q b by (cases r) (simp_all add: updateMassPositions_def)
qed

lemma updatePlank_tilt: "dynamics_of (snd (updatePlank p)) = dynamics_of p"
  by (simp add: updatePlank_def dynamics_of_def)

lemma updateNetTorque_tilt: "dynamics_of (updateNetTorque p) = dynamics_of p"
  by (simp add: updateNetTorque_def dynamics_of_def Let_def)

lemma refresh_tilt:
  "dynamics_of (snd (case updatePlank p of (Throw e, p3) \<Rightarrow> (Throw e, p3) | (Ret u, p3) \<Rightarrow> updateMassPositions p3)) = dynamics_of p"
  using updatePlank_tilt [of p]
  by (cases "updatePlank p") (auto split: outcome.splits simp: updateMassPositions_tilt)

lemma limitTilt_max: "maxTiltAngle (limitTilt p dt) = maxTiltAngle p"
  by (simp add: limitTilt_def Let_def)

lemma limitTilt_within:
  "0 \<le> maxTiltAngle p \<Longrightarrow> \<bar>tiltAngle (limitTilt p dt)\<bar> \<le> maxTiltAngle p"
  by (simp add: limitTilt_def Let_def)

lemma step_dynamics_of:
  "dynamics_of (snd (step p dt)) =
     (if userControlled p then dynamics_of p else dynamics_of (limitTilt (updateNetTorque p) dt))"
  by (simp add: step_def Let_def refresh_tilt)

lemma forceAngle_dynamics_of: "dynamics_of (snd (forceAngle p a)) = (a, maxTiltAngle p, 0)"
  by (simp add: forceAngle_def refresh_tilt) (simp add: dynamics_of_def)

lemma setMass_tilt: "dynamics_of (setMass p k m) = dynamics_of p"
  by (simp add: setMass_def dynamics_of_def)

lemma addMassToSurfaceAt_tilt: "dynamics_of (snd (addMassToSurfaceAt p m d)) = dynamics_of p"
  by (simp add: addMassToSurfaceAt_def Let_def addMassToSurface_throws js_assert_def setMass_tilt)

lemma removePair_loop_tilt: "dynamics_of (removePair_loop p m i n) = dynamics_of p"
  by (induction n arbitrary: i) (simp_all add: dynamics_of_def)

lemma removeForceVector_loop_tilt: "dynamics_of (snd (removeForceVector_loop p m j n)) = dynamics_of p"
  by (induction n arbitrary: j) (simp_all add: dynamics_of_def)

lemma removeMassFromSurface_tilt: "dynamics_of (snd (removeMassFromSurface p m)) = dynamics_of p"
proof -
  define p1 where "p1 = p\<lparr> massesOnSurface :=
                      splice_removed (massesOnSurface p) (indexOf (massesOnSurface p) m) 1 \<rparr>"
  define p2 where "p2 = removePair_loop p1 m 0 (length (massDistancePairs p1))"
  define p3 where "p3 = setMass p2 m ((masses p2 m)\<lparr> rotationAngle := 0, onPlank := False \<rparr>)"
  have t3: "dynamics_of p3 = dynamics_of p"
    by (simp add: p3_def p2_def setMass_tilt removePair_loop_tilt) (simp add: p1_def dynamics_of_def)
  obtain r p4 where r: "removeForceVector_loop p3 m 0 (length (massDistancePairs p3)) = (r, p4)"
    by (cases "removeForceVector_loop p3 m 0 (length (massDistancePairs p3))")
  have t4: "dynamics_of p4 = dynamics_of p"
    using removeForceVector_loop_tilt [of p3 m 0 "length (massDistancePairs p3)"] r t3 by simp
  have "removeMassFromSurface p m =
          (case r of Throw e \<Rightarrow> (Throw e, p4) | Ret u \<Rightarrow> (Ret (), updateNetTorque p4))"
    unfolding removeMassFromSurface_def Let_def
    using r by (simp add: p1_def p2_def p3_def split: outcome.splits)
  then show ?thesis
    using t4 by (cases r) (simp_all add: updateNetTorque_tilt)
qed

lemma removeAllMasses_tilt: "dynamics_of (snd (removeAllMasses p)) = dynamics_of p"
proof -
  let ?P = "\<lambda>q. dynamics_of q = dynamics_of p"
  have "?P (snd (forEach removeAllMasses_each (massesOnSurface p) p))"
    by (rule forEach_preserves [where P = ?P])
       (simp_all add: removeAllMasses_each_def Plank_removeMass_def)
  then show ?thesis by (simp add: removeAllMasses_def)
qed

lemma tilt_ok_cong: "dynamics_of q = dynamics_of p \<Longrightarrow> tilt_ok p \<Longrightarrow> tilt_ok q"
  by (simp add: dynamics_of_def tilt_ok_def)

lemma tilt_ok_step: "tilt_ok p \<Longrightarrow> tilt_ok (snd (step p dt))"
proof -
  assume ok: "tilt_ok p"
  show ?thesis
  proof (cases "userControlled p")
    case True
    then have "dynamics_of (snd (step p dt)) = dynamics_of p" by (simp add: step_dynamics_of)
    then show ?thesis using ok by (rule tilt_ok_cong)
  next
    case False
    have m: "maxTiltAngle (updateNetTorque p) = maxTiltAngle p"
      using updateNetTorque_tilt [of p] by (simp add: dynamics_of_def)
    from False have "dynamics_of (snd (step p dt)) = dynamics_of (limitTilt (updateNetTorque p) dt)"
      by (simp add: step_dynamics_of)
    moreover have "tilt_ok (limitTilt (updateNetTorque p) dt)"
      using ok limitTilt_within [of "updateNetTorque p" dt]
      by (simp add: tilt_ok_def limitTilt_max m)
    ultimately show ?thesis by (simp add: dynamics_of_def tilt_ok_def)
  qed
qed

lemma tilt_ok_steps: "tilt_ok p \<Longrightarrow> tilt_ok (steps p dts)"
  by (induction dts arbitrary: p) (simp_all add: tilt_ok_step)

lemma reachable_steps: "reachable p \<Longrightarrow> reachable (steps p dts)"
  by (induction dts arbitrary: p) (simp_all add: reachable.stepped)


lemma limitTilt_clamped:
  "maxTiltAngle p < \<bar>integratedTilt p dt\<bar> \<Longrightarrow>
   tiltAngle (limitTilt p dt) = maxTiltAngle p * (if integratedTilt p dt < 0 then - 1 else 1)
   \<and> angularVelocity (limitTilt p dt) = 0"
  by (simp add: limitTilt_def Let_def)

subsection \<open>The example planks\<close>

lemma plank0_reachable: "reachable plank0"
  unfolding plank0_def by (rule reachable.constructed)

lemma MOI_value: "MOMENT_OF_INERTIA = 16202 / 128"
  by (simp add: MOMENT_OF_INERTIA_def PLANK_MASS_def PLANK_LENGTH_def PLANK_THICKNESS_def)

lemma plank0_max: "maxTiltAngle plank0 = arcsin (1 / 3)"
  by (simp add: plank0_def new_Plank_def PLANK_LENGTH_def)

lemma arcsin_third_bounds: "1 / 3 \<le> arcsin (1 / 3 :: real) \<and> arcsin (1 / 3 :: real) < 2"
proof -
  have "sin (1 / 3 :: real) \<le> 1 / 3" by (rule sin_x_le_x) simp
  moreover have "(1 / 3 :: real) \<le> pi / 2" using pi_ge_two by simp
  ultimately have "1 / 3 \<le> arcsin (1 / 3 :: real)"
    by (subst le_arcsin_iff) simp_all
  moreover have "arcsin (1 / 3 :: real) \<le> pi / 2" by (rule arcsin_ubound) simp_all
  moreover have "pi / 2 < (2::real)" using pi_less_4 by simp
  ultimately show ?thesis by linarith
qed


lemma plank0_fields:
  "tiltAngle plank0 = 0" "angularVelocity plank0 = 0" "columnState plank0 = ''none''"
  "turningRight plank0" "\<not> userControlled plank0" "massesOnSurface plank0 = []"
  "currentNetTorque plank0 = 0"
  by (simp_all add: plank0_def new_Plank_def)

lemma plank0_torque:
  "currentNetTorque (updateNetTorque plank0) = 1 \<and> tiltAngle (updateNetTorque plank0) = 0
   \<and> angularVelocity (updateNetTorque plank0) = 0"
  using arcsin_third_bounds
  by (simp add: updateNetTorque_def Let_def plank0_max plank0_fields)

lemma plank0_integrated: "integratedTilt (updateNetTorque plank0) dt = dt * (128 / 16202)"
  by (simp add: plank0_torque integratedTilt_def nextAngularVelocity_def thresholded_def MOI_value)

subsection \<open>The tilt limit\<close>

text \<open>
  C2 as stated says that the tilt angle is within the limit after every step of every
  plank that calls produce. A plank constructed with its bottom centre below the ground
  has a negative limit, and no angle is within it; a plank forced to the angle 10 and
  then held by the user keeps that angle through a step.
\<close>

theorem tilt_limit_broken_by_low_or_forced_plank:
  "reachable plank_low
   \<and> \<not> \<bar>tiltAngle (snd (step plank_low 1))\<bar> \<le> maxTiltAngle (snd (step plank_low 1))
   \<and> reachable plank_forced
   \<and> \<not> \<bar>tiltAngle (snd (step plank_forced 1))\<bar> \<le> maxTiltAngle (snd (step plank_forced 1))"
proof -
  have r1: "reachable plank_low"
    unfolding plank_low_def by (rule reachable.constructed)
  have "arcsin (- 4 / 9 :: real) < arcsin 0"
    by (rule arcsin_less_arcsin) simp_all
  then have low: "maxTiltAngle plank_low < 0"
    by (simp add: plank_low_def new_Plank_def PLANK_LENGTH_def)
  have "maxTiltAngle (snd (step plank_low 1)) = maxTiltAngle plank_low"
    using step_dynamics_of [of plank_low 1] updateNetTorque_tilt [of plank_low]
    by (simp add: dynamics_of_def limitTilt_max split: if_splits)
  with low have b1: "\<not> \<bar>tiltAngle (snd (step plank_low 1))\<bar> \<le> maxTiltAngle (snd (step plank_low 1))"
    by simp
  have r2: "reachable plank_forced"
    unfolding plank_forced_def by (intro reachable.controlled reachable.forced plank0_reachable)
  have f: "tiltAngle plank_forced = 10" "maxTiltAngle plank_forced = arcsin (1 / 3)"
    "userControlled plank_forced"
    using forceAngle_dynamics_of [of plank0 10]
    by (simp_all add: plank_forced_def dynamics_of_def plank0_max)
  have "dynamics_of (snd (step plank_forced 1)) = dynamics_of plank_forced"
    using f by (simp add: step_dynamics_of)
  then have b2: "\<not> \<bar>tiltAngle (snd (step plank_forced 1))\<bar> \<le> maxTiltAngle (snd (step plank_forced 1))"
    using f arcsin_third_bounds by (simp add: dynamics_of_def)
  from r1 b1 r2 b2 show ?thesis by blast
qed

lemma tilt_ok_new:
  "0 \<le> vy l \<Longrightarrow> vy l \<le> PLANK_LENGTH / 2 \<Longrightarrow> tilt_ok (new_Plank l pv cs st)"
  by (simp add: tilt_ok_def new_Plank_def PLANK_LENGTH_def arcsin_nonneg)

lemma step_within_when_not_controlled:
  assumes "0 \<le> maxTiltAngle p" and "\<not> userControlled p"
  shows "\<bar>tiltAngle (snd (step p dt))\<bar> \<le> maxTiltAngle (snd (step p dt))"
proof -
  have m: "maxTiltAngle (updateNetTorque p) = maxTiltAngle p"
    using updateNetTorque_tilt [of p] by (simp add: dynamics_of_def)
  have "dynamics_of (snd (step p dt)) = dynamics_of (limitTilt (updateNetTorque p) dt)"
    using assms(2) by (simp add: step_dynamics_of)
  then show ?thesis
    using limitTilt_within [of "updateNetTorque p" dt] assms(1) m
    by (simp add: dynamics_of_def limitTilt_max)
qed

text \<open>
  C2, as amended. For a plank whose maximum tilt angle is not negative (as it is when
  the plank is constructed with its bottom centre between the ground and half its
  length above it) and for all time steps: if the tilt angle is within the limit, it is
  within the limit after any list of steps; a step of a plank that the user does not
  hold brings the tilt angle within the limit whatever it was; and when the integrated
  angle of such a step exceeds the limit, the step sets the tilt angle to the limit
  with the sign of the integrated angle and the angular velocity to 0.
\<close>

theorem tilt_within_limit_after_steps:
  assumes "0 \<le> maxTiltAngle p"
  shows "(\<bar>tiltAngle p\<bar> \<le> maxTiltAngle p \<longrightarrow>
            \<bar>tiltAngle (steps p dts)\<bar> \<le> maxTiltAngle (steps p dts))
         \<and> (\<not> userControlled p \<longrightarrow>
            \<bar>tiltAngle (snd (step p dt))\<bar> \<le> maxTiltAngle (snd (step p dt)))
         \<and> (\<not> userControlled p \<and> maxTiltAngle p < \<bar>integratedTilt (updateNetTorque p) dt\<bar> \<longrightarrow>
            tiltAngle (snd (step p dt)) =
              maxTiltAngle p * (if integratedTilt (updateNetTorque p) dt < 0 then - 1 else 1)
            \<and> angularVelocity (snd (step p dt)) = 0)"
proof -
  have a: "\<bar>tiltAngle (steps p dts)\<bar> \<le> maxTiltAngle (steps p dts)"
    if "\<bar>tiltAngle p\<bar> \<le> maxTiltAngle p"
  proof -
    have "tilt_ok p" using assms that by (simp add: tilt_ok_def)
    then have "tilt_ok (steps p dts)" by (rule tilt_ok_steps)
    then show ?thesis by (simp add: tilt_ok_def)
  qed
  have b: "\<bar>tiltAngle (snd (step p dt))\<bar> \<le> maxTiltAngle (snd (step p dt))"
    if "\<not> userControlled p"
    using assms that by (rule step_within_when_not_controlled)
  have c: "tiltAngle (snd (step p dt)) =
              maxTiltAngle p * (if integratedTilt (updateNetTorque p) dt < 0 then - 1 else 1)
            \<and> angularVelocity (snd (step p dt)) = 0"
    if u: "\<not> userControlled p" and over: "maxTiltAngle p < \<bar>integratedTilt (updateNetTorque p) dt\<bar>"
  proof -
    have m: "maxTiltAngle (updateNetTorque p) = maxTiltAngle p"
      using updateNetTorque_tilt [of p] by (simp add: dynamics_of_def)
    have "dynamics_of (snd (step p dt)) = dynamics_of (limitTilt (updateNetTorque p) dt)"
      using u by (simp add: step_dynamics_of)
    then show ?thesis
      using limitTilt_clamped [of "updateNetTorque p" dt] over m by (simp add: dynamics_of_def)
  qed
  from a b c show ?thesis by blast
qed

theorem tilt_within_limit_after_steps_witness:
  "0 \<le> maxTiltAngle plank0 \<and> \<bar>tiltAngle plank0\<bar> \<le> maxTiltAngle plank0
   \<and> \<not> userControlled plank0
   \<and> maxTiltAngle plank0 < \<bar>integratedTilt (updateNetTorque plank0) 1000\<bar>
   \<and> \<bar>tiltAngle (steps plank0 [1000, 0.5, 1000])\<bar> \<le> maxTiltAngle (steps plank0 [1000, 0.5, 1000])
   \<and> \<bar>tiltAngle (snd (step plank0 1000))\<bar> \<le> maxTiltAngle (snd (step plank0 1000))
   \<and> tiltAngle (snd (step plank0 1000)) = maxTiltAngle plank0
   \<and> angularVelocity (snd (step plank0 1000)) = 0"
proof -
  have m: "0 \<le> maxTiltAngle plank0" "\<bar>tiltAngle plank0\<bar> \<le> maxTiltAngle plank0"
    using arcsin_third_bounds by (simp_all add: plank0_max plank0_fields)
  have u: "\<not> userControlled plank0" by (simp add: plank0_fields)
  have over: "maxTiltAngle plank0 < \<bar>integratedTilt (updateNetTorque plank0) 1000\<bar>"
    using arcsin_third_bounds by (simp add: plank0_integrated plank0_max)
  have pos: "\<not> integratedTilt (updateNetTorque plank0) 1000 < 0"
    by (simp add: plank0_integrated)
  note t = tilt_within_limit_after_steps [OF m(1), of "[1000, 0.5, 1000]" 1000]
  from t m(2) have a:
    "\<bar>tiltAngle (steps plank0 [1000, 0.5, 1000])\<bar> \<le> maxTiltAngle (steps plank0 [1000, 0.5, 1000])"
    by blast
  from t u have b: "\<bar>tiltAngle (snd (step plank0 1000))\<bar> \<le> maxTiltAngle (snd (step plank0 1000))"
    by blast
  from t u over have "tiltAngle (snd (step plank0 1000)) =
      maxTiltAngle plank0 * (if integratedTilt (updateNetTorque plank0) 1000 < 0 then - 1 else 1)
      \<and> angularVelocity (snd (step plank0 1000)) = 0"
    by blast
  with pos have c: "tiltAngle (snd (step plank0 1000)) = maxTiltAngle plank0
      \<and> angularVelocity (snd (step plank0 1000)) = 0"
    by simp
  from m u over a b c show ?thesis by blast
qed

subsection \<open>Callbacks, attaching and the example planks with masses\<close>



lemma updateMassPositions_nonempty:
  "massesOnSurface p \<noteq> [] \<Longrightarrow> updateMassPositions p = (Throw TypeError, p)"
  by (cases "massesOnSurface p")
     (simp_all add: updateMassPositions_def updateMassPositions_each_def forEach_receiver_def)

lemma attach_throws: "fst (attach p m l) = Throw TypeError"
  by (simp add: attach_def Let_def updateMassPositions_nonempty setMass_def)

lemma attach_fields:
  "massesOnSurface (snd (attach p m l)) = massesOnSurface p @ [m]"
  "forceVectors (snd (attach p m l)) = forceVectors p @ [MassForceVector m]"
  "massDistancePairs (snd (attach p m l)) = massDistancePairs p"
  "masses (snd (attach p m l)) = (masses p)(m := (masses p m)\<lparr> position := l, onPlank := True \<rparr>)"
  "tiltAngle (snd (attach p m l)) = tiltAngle p"
  "maxTiltAngle (snd (attach p m l)) = maxTiltAngle p"
  "angularVelocity (snd (attach p m l)) = angularVelocity p"
  "columnState (snd (attach p m l)) = columnState p"
  "turningRight (snd (attach p m l)) = turningRight p"
  "userControlled (snd (attach p m l)) = userControlled p"
  "bottomCenterLocation (snd (attach p m l)) = bottomCenterLocation p"
  "currentNetTorque (snd (attach p m l)) = currentNetTorque p"
  by (simp_all add: attach_def Let_def updateMassPositions_nonempty setMass_def)

lemma attach_distance:
  "massDistanceProps (snd (attach p m l)) toString_object =
     Some (distance (getPlankSurfaceCenter p) l * (if vx l > vx (getPlankSurfaceCenter p) then 1 else - 1))"
  by (simp add: attach_def Let_def updateMassPositions_nonempty setMass_def getPlankSurfaceCenter_def)

lemma plank0_more:
  "maxTiltAngle plank0 = arcsin (1 / 3)" "forceVectors plank0 = []" "massDistancePairs plank0 = []"
  "masses plank0 = store0" "bottomCenterLocation plank0 = Vector2 0 0.75"
  "massDistanceProps plank0 = Map.empty" "pivotPoint plank0 = Vector2 0 1"
  by (simp_all add: plank0_def new_Plank_def PLANK_LENGTH_def)

lemma plank0_center: "getPlankSurfaceCenter plank0 = Vector2 0 0.8"
  by (simp add: getPlankSurfaceCenter_def plank0_more plank0_fields rotated_def plusV_def
      PLANK_THICKNESS_def)

lemma plank2_fields:
  "massesOnSurface plank2 = [0, 1]"
  "forceVectors plank2 = [MassForceVector 0, MassForceVector 1]"
  "massDistancePairs plank2 = []"
  "tiltAngle plank2 = 0" "angularVelocity plank2 = 0" "columnState plank2 = ''none''"
  "turningRight plank2" "\<not> userControlled plank2" "maxTiltAngle plank2 = arcsin (1 / 3)"
  "masses plank2 0 = brick\<lparr> position := Vector2 (- 0.5) 0.8, onPlank := True \<rparr>"
  "masses plank2 1 = brick\<lparr> position := Vector2 0.5 0.8, onPlank := True \<rparr>"
  "masses plank2 2 = brick"
  by (simp_all add: plank2_def attach_fields plank0_fields plank0_more store0_def)

lemma plank2_distance: "massDistanceProps plank2 toString_object = Some 0.5"
  by (simp add: plank2_def attach_distance getPlankSurfaceCenter_def attach_fields
      plank0_fields plank0_more rotated_def plusV_def PLANK_THICKNESS_def distance_def)

subsection \<open>Torque, detaching, balance\<close>

lemma demo_step:
  assumes "columnState p = ''none''" "turningRight p" "tiltAngle p = 0" "angularVelocity p = 0"
    "maxTiltAngle p = arcsin (1 / 3)" "\<not> userControlled p"
  shows "currentNetTorque (updateNetTorque p) = 1 \<and> tiltAngle (snd (step p 1)) = 64 / 8101"
proof -
  have t: "currentNetTorque (updateNetTorque p) = 1 \<and> tiltAngle (updateNetTorque p) = 0
      \<and> angularVelocity (updateNetTorque p) = 0 \<and> maxTiltAngle (updateNetTorque p) = arcsin (1 / 3)"
    using arcsin_third_bounds assms by (simp add: updateNetTorque_def Let_def)
  then have i: "integratedTilt (updateNetTorque p) 1 = 64 / 8101"
    by (simp add: integratedTilt_def nextAngularVelocity_def thresholded_def MOI_value)
  have "tiltAngle (limitTilt (updateNetTorque p) 1) = 64 / 8101"
    using arcsin_third_bounds t by (simp add: limitTilt_def Let_def i)
  moreover have "dynamics_of (snd (step p 1)) = dynamics_of (limitTilt (updateNetTorque p) 1)"
    using assms by (simp add: step_dynamics_of)
  ultimately show ?thesis using t by (simp add: dynamics_of_def)
qed

text \<open>
  C1. The claim: without support columns the net torque is the sum, over the attached
  masses, of mass value times signed distance from the centre, plus the plank's own
  contribution, so that bricks of 5 kg at 0.5 m on either side of the centre give
  torque 0 and a step leaves the tilt angle at 0. The code: \<^verbatim>\<open>updateNetTorque\<close> sets
  the torque to 1 or -1 whatever the masses are. With the two bricks attached, and
  with no mass at all, the torque is 1 and one step of one second tilts the level
  plank to 64/8101.
\<close>

theorem demo_torque_with_balanced_masses:
  "currentNetTorque (updateNetTorque plank2) = 1 \<and> tiltAngle (snd (step plank2 1)) = 64 / 8101
   \<and> currentNetTorque (updateNetTorque plank0) = 1 \<and> tiltAngle (snd (step plank0 1)) = 64 / 8101"
  using demo_step [of plank2] demo_step [of plank0]
  by (simp add: plank2_fields plank0_fields plank0_more)

lemma removeMassFromSurface_no_pairs:
  assumes "massDistancePairs p = []"
  shows "removeMassFromSurface p m =
     (Ret (), updateNetTorque
        (setMass (p\<lparr> massesOnSurface :=
                      splice_removed (massesOnSurface p) (indexOf (massesOnSurface p) m) 1 \<rparr>)
           m ((masses p m)\<lparr> rotationAngle := 0, onPlank := False \<rparr>)))"
  using assms by (simp add: removeMassFromSurface_def Let_def setMass_def)

lemma updateNetTorque_keeps:
  "massesOnSurface (updateNetTorque p) = massesOnSurface p"
  "forceVectors (updateNetTorque p) = forceVectors p"
  "massDistanceProps (updateNetTorque p) = massDistanceProps p"
  "massDistancePairs (updateNetTorque p) = massDistancePairs p"
  "masses (updateNetTorque p) = masses p"
  by (simp_all add: updateNetTorque_def Let_def)

lemma removeMassFromSurface_fields:
  assumes "massDistancePairs p = []"
  shows "fst (removeMassFromSurface p m) = Ret ()"
    "massesOnSurface (snd (removeMassFromSurface p m)) =
       splice_removed (massesOnSurface p) (indexOf (massesOnSurface p) m) 1"
    "forceVectors (snd (removeMassFromSurface p m)) = forceVectors p"
    "massDistanceProps (snd (removeMassFromSurface p m)) = massDistanceProps p"
    "masses (snd (removeMassFromSurface p m)) =
       (masses p)(m := (masses p m)\<lparr> rotationAngle := 0, onPlank := False \<rparr>)"
  by (simp_all add: removeMassFromSurface_no_pairs [OF assms] updateNetTorque_keeps setMass_def)

text \<open>
  C5. The claim: removing a mass that is not attached changes nothing, and removing an
  attached mass takes exactly that mass out of the list, with its distance record and
  its force vector. The code: on the plank that carries bricks 0 and 1, removing
  brick 2, which is not attached, returns normally and leaves \<^verbatim>\<open>[1]\<close>: brick 0 is
  gone. Removing brick 1 also leaves \<^verbatim>\<open>[1]\<close> and both force vectors; the flags of
  brick 1 are reset as the claim says. On the new plank, which carries nothing, the
  removal of a brick sets the net torque, 0 before, to 1.
\<close>

theorem removal_by_index_of_splice:
  "massesOnSurface (snd (removeMassFromSurface plank2 2)) = [1]
   \<and> fst (removeMassFromSurface plank2 2) = Ret ()
   \<and> massesOnSurface (snd (removeMassFromSurface plank2 1)) = [1]
   \<and> forceVectors (snd (removeMassFromSurface plank2 1)) = [MassForceVector 0, MassForceVector 1]
   \<and> onPlank (masses (snd (removeMassFromSurface plank2 1)) 1) = False
   \<and> rotationAngle (masses (snd (removeMassFromSurface plank2 1)) 1) = 0
   \<and> currentNetTorque plank0 = 0
   \<and> currentNetTorque (snd (removeMassFromSurface plank0 2)) = 1"
proof -
  have "currentNetTorque (snd (removeMassFromSurface plank0 2)) = 1"
    using arcsin_third_bounds
    by (simp add: removeMassFromSurface_no_pairs plank0_more plank0_fields updateNetTorque_def
        setMass_def Let_def)
  then show ?thesis
    by (simp add: removeMassFromSurface_fields plank2_fields plank2_distance
        splice_removed_def splice_start_def brick_def plank0_fields)
qed

lemma removeAllMasses_nonempty:
  "massesOnSurface p \<noteq> [] \<Longrightarrow> removeAllMasses p = (Throw TypeError, p)"
  by (cases "massesOnSurface p")
     (simp_all add: removeAllMasses_def removeAllMasses_each_def Plank_removeMass_def)



lemma isBalanced_nonempty: "massesOnSurface p \<noteq> [] \<Longrightarrow> isBalanced p = Throw TypeError"
  by (cases "massesOnSurface p")
     (simp_all add: isBalanced_def isBalanced_each_def forEach_receiver_def)


text \<open>
  C9. The claim: \<^verbatim>\<open>addMassToSurface\<close> returns a failure result and changes nothing
  when the mass is not above the plank or no slot is open, and otherwise attaches the
  mass and returns success. The code: every call throws a TypeError in
  \<^verbatim>\<open>getSnapToLocations\<close> and leaves the plank as it was; and the body that attaches,
  run for any mass and slot, throws in \<^verbatim>\<open>updateMassPositions\<close> before success is
  returned.
\<close>

theorem addMassToSurface_always_throws:
  "fst (addMassToSurface p m) = Throw TypeError \<and> snd (addMassToSurface p m) = p
   \<and> fst (attach p m l) = Throw TypeError"
  by (simp add: addMassToSurface_throws attach_throws)

subsection \<open>Placement at a distance, slot resolution, positions of the masses\<close>

lemma plank0_shape_bounds:
  "bounds_minX (shape plank0) = - 2.25" "bounds_maxX (shape plank0) = 2.25"
  by (simp_all add: plank0_def new_Plank_def bounds_minX_def bounds_maxX_def outline_def
      translation_def plusV_def PLANK_LENGTH_def PLANK_THICKNESS_def)

text \<open>
  C4. The claim: \<^verbatim>\<open>addMassToSurfaceAt\<close> fails exactly when the distance exceeds half
  the length, 2.25, in magnitude. The code: the guard is
  \<^verbatim>\<open>distanceFromCenter <= PLANK_LENGTH / 2\<close>, so the distance 1 is refused with the
  error for an invalid distance on every plank, and the distance 3 passes the guard:
  the mass is moved to (3, 0.81) before the assertion fails.
\<close>

theorem addMassToSurfaceAt_guard_inverted:
  "addMassToSurfaceAt p m 1 =
     (Throw (Error ''Warning: Attempt to add mass at invalid distance from center''), p)
   \<and> fst (addMassToSurfaceAt plank0 0 3) = Throw (Error ''Assertion failed'')
   \<and> position (masses (snd (addMassToSurfaceAt plank0 0 3)) 0) = Vector2 3 0.81"
proof -
  have a: "addMassToSurfaceAt p m 1 =
     (Throw (Error ''Warning: Attempt to add mass at invalid distance from center''), p)"
    by (simp add: addMassToSurfaceAt_def PLANK_LENGTH_def)
  let ?p1 = "setMass plank0 0 ((masses plank0 0)\<lparr> position := Vector2 3 0.81 \<rparr>)"
  have v: "plusV (getPlankSurfaceCenter plank0) (rotated (Vector2 3 0) (tiltAngle plank0)) = Vector2 3 0.8"
    by (simp add: plank0_center plank0_fields rotated_def plusV_def)
  have above: "\<not> isPointAbovePlank ?p1 (position (masses ?p1 0))"
    by (simp add: isPointAbovePlank_def setMass_def plank0_shape_bounds)
  have "addMassToSurfaceAt plank0 0 3 = (Throw (Error ''Assertion failed''), ?p1)"
    using above by (simp add: addMassToSurfaceAt_def PLANK_LENGTH_def Let_def v js_assert_def)
  then show ?thesis using a by (simp add: setMass_def)
qed

lemma without_mass_id: "without_mass locations m = locations"
  by (simp add: without_mass_def)

lemma occupied_inner_id: "occupied_inner p c ms candidates = candidates"
  by (induction ms arbitrary: candidates) (simp_all add: without_mass_id)

lemma occupied_outer_id: "occupied_outer p cs candidates = candidates"
  by (induction cs arbitrary: candidates) (simp_all add: occupied_inner_id)

lemma getOpenMassDroppedLocation_from_ignores_masses:
  "getOpenMassDroppedLocation_from slots p x = closest_of x (removeCenter slots) None"
  by (simp add: getOpenMassDroppedLocation_from_def Let_def occupied_outer_id)

subsection \<open>The planks that calls produce carry no mass\<close>





















text \<open>
  What the methods would do to a plank that carried a mass, which no call produces:
  \<^verbatim>\<open>updateMassPositions\<close> and \<^verbatim>\<open>isBalanced\<close> throw in their callbacks, where
  \<^verbatim>\<open>this\<close> is not the plank, and \<^verbatim>\<open>removeAllMasses\<close> throws at \<^verbatim>\<open>removeMass\<close>
  (lemmas \<^verbatim>\<open>updateMassPositions_nonempty\<close>, \<^verbatim>\<open>isBalanced_nonempty\<close>,
  \<^verbatim>\<open>removeAllMasses_nonempty\<close>); the occupancy loop of the slot resolution removes no
  candidate (lemma \<^verbatim>\<open>getOpenMassDroppedLocation_from_ignores_masses\<close>).
\<close>

subsection \<open>Support columns\<close>

text \<open>
  With a support column the net torque is 0, and a step leaves the tilt angle of a
  plank at rest where it is, provided the angle is within the limit and is 0 or at
  least 1e-4 in magnitude.
\<close>

theorem columns_lock_plank_at_rest:
  assumes "columnState p \<noteq> ''none''" and "angularVelocity p = 0"
    and "tiltAngle p = 0 \<or> 0.0001 \<le> \<bar>tiltAngle p\<bar>" and "\<bar>tiltAngle p\<bar> \<le> maxTiltAngle p"
  shows "currentNetTorque (updateNetTorque p) = 0 \<and> tiltAngle (snd (step p dt)) = tiltAngle p"
proof -
  have t: "currentNetTorque (updateNetTorque p) = 0 \<and> tiltAngle (updateNetTorque p) = tiltAngle p
      \<and> angularVelocity (updateNetTorque p) = 0 \<and> maxTiltAngle (updateNetTorque p) = maxTiltAngle p"
    using assms by (simp add: updateNetTorque_def)
  then have i: "integratedTilt (updateNetTorque p) dt = tiltAngle p"
    by (simp add: integratedTilt_def nextAngularVelocity_def thresholded_def)
  have "tiltAngle (limitTilt (updateNetTorque p) dt) = tiltAngle p"
    using assms t by (auto simp add: limitTilt_def Let_def i)
  then have "tiltAngle (snd (step p dt)) = tiltAngle p"
    using step_dynamics_of [of p dt] by (auto simp add: dynamics_of_def split: if_splits)
  with t show ?thesis by simp
qed

theorem columns_lock_plank_at_rest_witness:
  "columnState plank_locked \<noteq> ''none'' \<and> angularVelocity plank_locked = 0
   \<and> tiltAngle plank_locked = 0 \<and> \<bar>tiltAngle plank_locked\<bar> \<le> maxTiltAngle plank_locked
   \<and> currentNetTorque (updateNetTorque plank_locked) = 0
   \<and> tiltAngle (snd (step plank_locked 1000)) = tiltAngle plank_locked"
proof -
  have a: "columnState plank_locked \<noteq> ''none''" "angularVelocity plank_locked = 0"
    "tiltAngle plank_locked = 0"
    by (simp_all add: plank_locked_def plank0_fields)
  have b: "\<bar>tiltAngle plank_locked\<bar> \<le> maxTiltAngle plank_locked"
    using arcsin_third_bounds by (simp add: plank_locked_def plank0_fields plank0_more)
  show ?thesis
    using columns_lock_plank_at_rest [of plank_locked 1000] a b by simp
qed

text \<open>A plank that is turning when the columns come keeps turning: the step integrates
  the angular velocity it finds.\<close>

lemma columns_do_not_stop_a_moving_plank:
  "columnState plank_columns \<noteq> ''none'' \<and> tiltAngle plank_columns = 0
   \<and> currentNetTorque (updateNetTorque plank_columns) = 0
   \<and> tiltAngle (snd (step plank_columns 0.1)) = 0.05"
proof -
  have f: "columnState plank_columns = ''double''" "tiltAngle plank_columns = 0"
    "angularVelocity plank_columns = 0.5" "maxTiltAngle plank_columns = arcsin (1 / 3)"
    "\<not> userControlled plank_columns"
    by (simp_all add: plank_columns_def plank0_fields plank0_more)
  have t: "currentNetTorque (updateNetTorque plank_columns) = 0
      \<and> tiltAngle (updateNetTorque plank_columns) = 0
      \<and> angularVelocity (updateNetTorque plank_columns) = 0.5
      \<and> maxTiltAngle (updateNetTorque plank_columns) = arcsin (1 / 3)"
    using f by (simp add: updateNetTorque_def)
  then have i: "integratedTilt (updateNetTorque plank_columns) 0.1 = 0.05"
    by (simp add: integratedTilt_def nextAngularVelocity_def thresholded_def)
  have "tiltAngle (limitTilt (updateNetTorque plank_columns) 0.1) = 0.05"
    using arcsin_third_bounds t by (simp add: limitTilt_def Let_def i)
  then have "tiltAngle (snd (step plank_columns 0.1)) = 0.05"
    using step_dynamics_of [of plank_columns "0.1"] f by (simp add: dynamics_of_def)
  with t f show ?thesis by simp
qed

end
